theory Spec2Isabelle
  imports Main "HOL-Library.AList" "HOL-Library.Sublist"
begin

section \<open>Background jobs of the controller (openwisp\_controller/config/tasks.py)\<close>

text \<open>
  Every job of \<^verbatim>\<open>tasks.py\<close> is embedded as a HOL function. What a job does beyond
  returning is made explicit: an exception that leaves the job is the value
  \<open>Raises e\<close>, the database tables it reads and writes are passed in and returned, log
  records and calls to collaborators are collected in the order they happen. Values that
  come from outside the file (the output of the discovery command, the wall clock, the HTTP
  response, what a collaborator does) are parameters.
\<close>

subsection \<open>Exceptions, outcomes, log records\<close>

datatype exn =
    DoesNotExist
  | MultipleObjectsReturned
  | IndexError
  | KeyError string
  | SoftTimeLimitExceeded
  | ValidationError string
  | OtherException string

datatype outcome = Returns | Raises exn

datatype log_level = INFO | WARNING | ERROR

type_synonym log_record = "log_level \<times> string"

subsection \<open>Python strings, lists and dicts\<close>

text \<open>\<^verbatim>\<open>s.startswith(p)\<close>\<close>

definition startswith :: "string \<Rightarrow> string \<Rightarrow> bool" where
  "startswith s p = (take (length p) s = p)"

text \<open>\<^verbatim>\<open>s.split(c)\<close> for a one-character separator: every occurrence splits, and the
  result has at least one element (\<^verbatim>\<open>''.split(';') == ['']\<close>).\<close>

fun str_split :: "char \<Rightarrow> string \<Rightarrow> string list" where
  "str_split c [] = [[]]"
| "str_split c (x # xs) =
     (if x = c then [] # str_split c xs
      else (case str_split c xs of
              [] \<Rightarrow> [[x]]
            | w # ws \<Rightarrow> (x # w) # ws))"

text \<open>\<^verbatim>\<open>s.split(c, maxsplit=1)\<close>: split at the first occurrence only; a string without
  the separator comes back as the one-element list \<^verbatim>\<open>[s]\<close>.\<close>

definition str_split_maxsplit1 :: "char \<Rightarrow> string \<Rightarrow> string list" where
  "str_split_maxsplit1 c s =
     (if c \<in> set s
      then [takeWhile (\<lambda>x. x \<noteq> c) s, tl (dropWhile (\<lambda>x. x \<noteq> c) s)]
      else [s])"

text \<open>\<^verbatim>\<open>xs[i]\<close> for a non-negative index: IndexError out of range.\<close>

definition getitem :: "'a list \<Rightarrow> nat \<Rightarrow> exn + 'a" where
  "getitem xs i = (if i < length xs then Inr (xs ! i) else Inl IndexError)"

text \<open>A dict with string keys is an association list in insertion order.
  \<^verbatim>\<open>d[k] = v\<close> is \<^const>\<open>AList.update\<close>, \<^verbatim>\<open>d.get(k)\<close> is \<^const>\<open>map_of\<close> (HOL's \<open>None\<close>
  is Python's), \<^verbatim>\<open>d[k]\<close> raises KeyError on a missing key.\<close>

definition dict_getitem :: "(string \<times> 'v) list \<Rightarrow> string \<Rightarrow> exn + 'v" where
  "dict_getitem d k = (case map_of d k of None \<Rightarrow> Inl (KeyError k) | Some v \<Rightarrow> Inr v)"

subsection \<open>Django's \<^verbatim>\<open>Model.objects.get\<close>\<close>

text \<open>
  \<^verbatim>\<open>objects.get(...)\<close> applied to the rows that match the lookup: it returns the only
  match, raises \<^verbatim>\<open>DoesNotExist\<close> (a subclass of \<^verbatim>\<open>ObjectDoesNotExist\<close>) when nothing
  matches and \<^verbatim>\<open>MultipleObjectsReturned\<close> when several rows do. The file relies on this
  in \<^verbatim>\<open>update_template_related_config_status\<close>, which catches
  \<^verbatim>\<open>ObjectDoesNotExist\<close> around the call.
\<close>

fun queryset_get :: "'a list \<Rightarrow> exn + 'a" where
  "queryset_get [] = Inl DoesNotExist"
| "queryset_get [x] = Inr x"
| "queryset_get (x # y # zs) = Inl MultipleObjectsReturned"

text \<open>A lookup by primary key, \<^verbatim>\<open>objects.get(pk=k)\<close>, on a table that maps each primary
  key to its row: at most one row matches.\<close>

definition rows_with_pk :: "'k \<Rightarrow> ('k \<rightharpoonup> 'r) \<Rightarrow> 'r list" where
  "rows_with_pk k table = (case table k of None \<Rightarrow> [] | Some r \<Rightarrow> [r])"

subsection \<open>Discovery reconciliation: \<^verbatim>\<open>update_adoptable_antenna_list\<close>\<close>

type_synonym timestamp = nat

text \<open>
  Modelled from the spec: the model class \<^verbatim>\<open>AdoptableDevice\<close> is loaded by name and
  is not part of the file. The fields are the six the constructor call on lines 64-66
  fills positionally, named as the data model of the specification names them; \<open>ip\<close> and
  \<open>last_seen\<close> are the names the file itself uses.
\<close>

record adoptable_device =
  mac_address :: string
  adoption_key :: string
  os_version :: string
  ip :: string
  first_seen :: timestamp
  last_seen :: timestamp

text \<open>
  The state a run works on: the table of adoptable devices (a row is identified by its
  position, its primary key), the log records emitted so far, and how often
  \<^verbatim>\<open>datetime.now()\<close> has been read.
\<close>

record registry =
  devices :: "adoptable_device list"
  log_records :: "log_record list"
  now_calls :: nat

text \<open>The rows \<^verbatim>\<open>AdoptableDevice.objects.get(ip=a)\<close> looks at, each with its primary key.\<close>

definition rows_with_ip :: "string \<Rightarrow> adoptable_device list \<Rightarrow> (nat \<times> adoptable_device) list" where
  "rows_with_ip a ds = filter (\<lambda>(k, d). ip d = a) (enumerate 0 ds)"

text \<open>Lines 43-45: the loop over the TXT records. \<^verbatim>\<open>records[t[0]] = t[1]\<close> evaluates
  \<^verbatim>\<open>t[1]\<close> first.\<close>

fun parse_txt :: "string list \<Rightarrow> (string \<times> string) list \<Rightarrow> exn + (string \<times> string) list" where
  "parse_txt [] records = Inr records"
| "parse_txt (txt # txts) records =
     (let t = str_split_maxsplit1 CHR ''='' txt in
      case getitem t 1 of
        Inl e \<Rightarrow> Inl e
      | Inr v \<Rightarrow>
          (case getitem t 0 of
             Inl e \<Rightarrow> Inl e
           | Inr k \<Rightarrow> parse_txt txts (AList.update k v records)))"

text \<open>Lines 48-50: the warning; \<open>repr\<close> is Python's \<^verbatim>\<open>repr\<close> of the dict.\<close>

definition invalid_announcement :: "((string \<times> string) list \<Rightarrow> string) \<Rightarrow> (string \<times> string) list \<Rightarrow> log_record" where
  "invalid_announcement repr records =
     (WARNING, ''update_adoptable_antenna_list() invalid antenna announcement: '' @ repr records)"

text \<open>
  Lines 54-67: a valid announcement. \<open>clock n\<close> is what the \<open>n\<close>-th call of
  \<^verbatim>\<open>datetime.now()\<close> returns. \<open>known_adoptable\<close> is the reference line 56 binds to
  what \<^verbatim>\<open>objects.get\<close> returned, with the primary key of the row; line 57 compares
  it with \<^verbatim>\<open>None\<close>, and the \<^verbatim>\<open>else\<close> branch of line 61 is the case \<open>None\<close>.
\<close>

definition refresh_or_add ::
  "(nat \<Rightarrow> timestamp) \<Rightarrow> string list \<Rightarrow> (string \<times> string) list \<Rightarrow> registry \<Rightarrow> outcome \<times> registry" where
  "refresh_or_add clock antenna records s =
     (let now = clock (now_calls s);
          s1 = s\<lparr>now_calls := Suc (now_calls s)\<rparr> in
      (case getitem antenna 7 of
         Inl e \<Rightarrow> (Raises e, s1)
       | Inr address \<Rightarrow>
           (case queryset_get (rows_with_ip address (devices s1)) of
              Inl e \<Rightarrow> (Raises e, s1)
            | Inr row \<Rightarrow>
                (let known_adoptable = Some row in
                 (case known_adoptable of
                    Some (pk, known) \<Rightarrow>
                      (Returns, s1\<lparr>devices := list_update (devices s1) pk (known\<lparr>last_seen := now\<rparr>)\<rparr>)
                  | None \<Rightarrow>
                      (case dict_getitem records ''mac'' of
                         Inl e \<Rightarrow> (Raises e, s1)
                       | Inr mac \<Rightarrow>
                           (case dict_getitem records ''os_version'' of
                              Inl e \<Rightarrow> (Raises e, s1)
                            | Inr osv \<Rightarrow>
                                (Returns, s1\<lparr>devices := devices s1 @
                                   [\<lparr>mac_address = mac, adoption_key = ''key'',
                                     os_version = osv, ip = address,
                                     first_seen = now, last_seen = now\<rparr>]\<rparr>))))))))"

text \<open>
  Lines 26-67: the body of the loop for one line. \<open>Returns\<close> means that the loop goes on
  with the next line (by \<^verbatim>\<open>continue\<close>, or by reaching the end of the body).
\<close>

definition reconcile_antenna ::
  "((string \<times> string) list \<Rightarrow> string) \<Rightarrow> (nat \<Rightarrow> timestamp) \<Rightarrow> string \<Rightarrow> registry \<Rightarrow> outcome \<times> registry" where
  "reconcile_antenna repr clock line s =
     (if \<not> startswith line ''='' then (Returns, s)
      else
        (let antenna = str_split CHR '';'' line in
         (case parse_txt (drop 9 antenna) [] of
            Inl e \<Rightarrow> (Raises e, s)
          | Inr records \<Rightarrow>
              (if map_of records ''mac'' = None \<or> map_of records ''os_version'' = None
                  \<or> map_of records ''version'' = None
               then (Returns, s\<lparr>log_records := log_records s @ [invalid_announcement repr records]\<rparr>)
               else refresh_or_add clock antenna records s))))"

text \<open>Line 25: the loop over the lines; an exception ends the job.\<close>

fun reconcile_antennas ::
  "((string \<times> string) list \<Rightarrow> string) \<Rightarrow> (nat \<Rightarrow> timestamp) \<Rightarrow> string list \<Rightarrow> registry \<Rightarrow> outcome \<times> registry" where
  "reconcile_antennas repr clock [] s = (Returns, s)"
| "reconcile_antennas repr clock (antenna # rest) s =
     (case reconcile_antenna repr clock antenna s of
        (Raises e, s') \<Rightarrow> (Raises e, s')
      | (Returns, s') \<Rightarrow> reconcile_antennas repr clock rest s')"

text \<open>
  The job on the text of the announcements: \<open>mdns_output\<close> stands for what the discovery
  command of line 22 printed, as the \<^verbatim>\<open>str\<close> whose lines the loop of line 25 goes
  through. Line 22 itself is not part of the function below. As it is written it passes the
  command line as one string without a shell and splits the \<^verbatim>\<open>bytes\<close> that
  \<^verbatim>\<open>check_output\<close> returns with a \<^verbatim>\<open>str\<close> separator, so a run of the job as
  written raises there (FileNotFoundError, or TypeError) before it reaches the loop and
  leaves the table as it was.
\<close>

definition update_adoptable_antenna_list ::
  "((string \<times> string) list \<Rightarrow> string) \<Rightarrow> (nat \<Rightarrow> timestamp) \<Rightarrow> string \<Rightarrow> registry \<Rightarrow> outcome \<times> registry" where
  "update_adoptable_antenna_list repr clock mdns_output s =
     reconcile_antennas repr clock (str_split (CHR 0x0A) mdns_output) s"

subsection \<open>Effects of the other jobs\<close>

text \<open>What a job does besides returning: the log records it emits and the calls it makes
  to collaborators, in the order they happen.\<close>

datatype 'c effect = Logged log_record | Called 'c

fun calls :: "'c effect list \<Rightarrow> 'c list" where
  "calls [] = []"
| "calls (Logged r # es) = calls es"
| "calls (Called c # es) = c # calls es"

subsection \<open>Template status propagation: \<^verbatim>\<open>update_template_related_config_status\<close>\<close>

datatype 't template_call = Update_related_config_status 't

text \<open>
  Lines 80-95. The model class \<^verbatim>\<open>Template\<close> is not part of the file, so how
  \<^verbatim>\<open>Template.objects.get(pk=template_pk)\<close> ends is a parameter: \<open>objects_get template_pk\<close>
  is the template, or the exception the lookup raises. That is \<^verbatim>\<open>DoesNotExist\<close> when
  no template has the primary key; a lookup may also raise another exception, such as the
  \<^verbatim>\<open>ValidationError\<close> of a primary-key field that rejects the identifier. Line 83
  catches \<^verbatim>\<open>ObjectDoesNotExist\<close> only. \<open>str_template\<close> and \<open>str_exn\<close> are
  \<^verbatim>\<open>str()\<close> of a template and of the exception, and \<open>update_related\<close> is how
  \<^verbatim>\<open>template._update_related_config_status()\<close> ends.
\<close>

definition update_template_related_config_status ::
  "('t \<Rightarrow> string) \<Rightarrow> (exn \<Rightarrow> string) \<Rightarrow> ('t \<Rightarrow> outcome) \<Rightarrow> (string \<Rightarrow> exn + 't) \<Rightarrow> string
     \<Rightarrow> outcome \<times> 't template_call effect list" where
  "update_template_related_config_status str_template str_exn update_related objects_get template_pk =
     (case objects_get template_pk of
        Inl e \<Rightarrow>
          (if e = DoesNotExist
           then (Returns,
                 [Logged (WARNING, ''update_template_related_config_status('' @ [CHR 0x22] @ template_pk
                                     @ [CHR 0x22] @ '') failed: '' @ str_exn e)])
           else (Raises e, []))
      | Inr template \<Rightarrow>
          (case update_related template of
             Returns \<Rightarrow> (Returns, [Called (Update_related_config_status template)])
           | Raises e \<Rightarrow>
               (if e = SoftTimeLimitExceeded
                then (Returns,
                      [Called (Update_related_config_status template),
                       Logged (ERROR, ''soft time limit hit while executing ''
                                      @ ''_update_related_config_status for '' @ str_template template
                                      @ '' (ID: '' @ template_pk @ '')'')])
                else (Raises e, [Called (Update_related_config_status template)]))))"

subsection \<open>DH parameters of a VPN server: \<^verbatim>\<open>create_vpn_dh\<close>\<close>

text \<open>
  Modelled from the spec: the model class \<^verbatim>\<open>Vpn\<close> is not part of the file; a Vpn holds an
  optional \<open>dh\<close>, and whatever else it holds is the extension of the record.
\<close>

record vpn =
  dh :: "string option"

datatype vpn_call = Dhparam nat | Full_clean | Save

text \<open>
  Lines 103-114. \<open>dhparam\<close> is how \<^verbatim>\<open>Vpn.dhparam(bits)\<close> ends: with the parameters or
  with an exception; \<open>full_clean\<close> is how \<^verbatim>\<open>vpn.full_clean()\<close> ends: with the validated
  instance or with an exception. The result holds the table of VPN servers after the job.
\<close>

definition create_vpn_dh ::
  "('a vpn_scheme \<Rightarrow> string) \<Rightarrow> (nat \<Rightarrow> exn + string) \<Rightarrow> ('a vpn_scheme \<Rightarrow> exn + 'a vpn_scheme)
     \<Rightarrow> (string \<rightharpoonup> 'a vpn_scheme) \<Rightarrow> string
     \<Rightarrow> outcome \<times> (string \<rightharpoonup> 'a vpn_scheme) \<times> vpn_call effect list" where
  "create_vpn_dh str_vpn dhparam full_clean vpns vpn_pk =
     (case queryset_get (rows_with_pk vpn_pk vpns) of
        Inl e \<Rightarrow> (Raises e, vpns, [])
      | Inr vpn \<Rightarrow>
          (case dhparam 2048 of
             Inl e \<Rightarrow>
               (if e = SoftTimeLimitExceeded
                then (Returns, vpns,
                      [Called (Dhparam 2048),
                       Logged (ERROR, ''soft time limit hit while generating DH ''
                                      @ ''parameters for VPN Server '' @ str_vpn vpn
                                      @ '' (ID: '' @ vpn_pk @ '')'')])
                else (Raises e, vpns, [Called (Dhparam 2048)]))
           | Inr params \<Rightarrow>
               (case full_clean (vpn\<lparr>dh := Some params\<rparr>) of
                  Inl e \<Rightarrow> (Raises e, vpns, [Called (Dhparam 2048), Called Full_clean])
                | Inr cleaned \<Rightarrow>
                    (Returns, vpns(vpn_pk \<mapsto> cleaned),
                     [Called (Dhparam 2048), Called Full_clean, Called Save]))))"

subsection \<open>Values and keyword arguments of the dispatching jobs\<close>

datatype pyval = PyNone | PyStr string | PyInt int | PyList "pyval list"

text \<open>\<^verbatim>\<open>kwargs.get(k)\<close>: \<^verbatim>\<open>None\<close> for a missing key.\<close>

definition dict_get :: "(string \<times> pyval) list \<Rightarrow> string \<Rightarrow> pyval" where
  "dict_get d k = (case map_of d k of None \<Rightarrow> PyNone | Some v \<Rightarrow> v)"

text \<open>\<^verbatim>\<open>kwargs.pop(k)\<close>: KeyError for a missing key, else the value and the dict without
  the key.\<close>

definition dict_pop :: "(string \<times> 'v) list \<Rightarrow> string \<Rightarrow> exn + 'v \<times> (string \<times> 'v) list" where
  "dict_pop d k = (case map_of d k of None \<Rightarrow> Inl (KeyError k) | Some v \<Rightarrow> Inr (v, AList.delete k d))"

text \<open>
  The names \<^verbatim>\<open>Device._meta.model_name\<close>, \<^verbatim>\<open>DeviceGroup._meta.model_name\<close>,
  \<^verbatim>\<open>Config._meta.model_name\<close> and \<^verbatim>\<open>Cert._meta.model_name\<close> belong to model classes
  that are not part of the file: they are parameters of the jobs that compare with them.
\<close>

record model_names =
  device_model_name :: string
  devicegroup_model_name :: string
  config_model_name :: string
  cert_model_name :: string

subsection \<open>Cache invalidation on change: \<^verbatim>\<open>invalidate_devicegroup_cache_change\<close>\<close>

datatype cache_call =
    Device_change_invalidates_cache pyval
  | Devicegroup_change_invalidates_cache pyval
  | Certificate_change_invalidates_cache pyval

text \<open>Lines 125-130. \<open>collaborator\<close> is how a call to \<^verbatim>\<open>DeviceGroupCommonName\<close> ends; the
  result holds the calls made.\<close>

definition invalidate_devicegroup_cache_change ::
  "model_names \<Rightarrow> (cache_call \<Rightarrow> outcome) \<Rightarrow> pyval \<Rightarrow> string \<Rightarrow> outcome \<times> cache_call list" where
  "invalidate_devicegroup_cache_change names collaborator instance_id model_name =
     (if model_name = device_model_name names
      then (collaborator (Device_change_invalidates_cache instance_id),
            [Device_change_invalidates_cache instance_id])
      else if model_name = devicegroup_model_name names
      then (collaborator (Devicegroup_change_invalidates_cache instance_id),
            [Devicegroup_change_invalidates_cache instance_id])
      else if model_name = cert_model_name names
      then (collaborator (Certificate_change_invalidates_cache instance_id),
            [Certificate_change_invalidates_cache instance_id])
      else (Returns, []))"

subsection \<open>Webhook of a VPN server: \<^verbatim>\<open>trigger_vpn_server_endpoint\<close>\<close>

text \<open>\<^verbatim>\<open>str(n)\<close> of an integer, as the f-string of line 170 formats the status code.\<close>

fun str_nat :: "nat \<Rightarrow> string" where
  "str_nat n =
     (if n < 10 then [''0123456789'' ! n]
      else str_nat (n div 10) @ [''0123456789'' ! (n mod 10)])"

declare str_nat.simps [simp del]

definition str_int :: "int \<Rightarrow> string" where
  "str_int i = (if i < 0 then CHR ''-'' # str_nat (nat (- i)) else str_nat (nat i))"

text \<open>\<^verbatim>\<open>requests.post(endpoint, params=..., verify=...)\<close>\<close>

datatype http_call = Requests_post string "(string \<times> string) list" bool

text \<open>
  Lines 160-172. \<open>debug\<close> is \<^verbatim>\<open>settings.DEBUG\<close>; \<open>requests_post\<close> is how the request
  ends: with an exception of the network layer or with the status code of the response.
\<close>

definition trigger_vpn_server_endpoint ::
  "bool \<Rightarrow> (http_call \<Rightarrow> exn + int) \<Rightarrow> string \<Rightarrow> string \<Rightarrow> string
     \<Rightarrow> outcome \<times> http_call effect list" where
  "trigger_vpn_server_endpoint debug requests_post endpoint auth_token vpn_id =
     (let request = Requests_post endpoint [(''key'', auth_token)] (if debug then False else True) in
      (case requests_post request of
         Inl e \<Rightarrow> (Raises e, [Called request])
       | Inr status_code \<Rightarrow>
           (if status_code = 200
            then (Returns,
                  [Called request,
                   Logged (INFO, ''Triggered update webhook of VPN Server UUID: '' @ vpn_id)])
            else (Returns,
                  [Called request,
                   Logged (ERROR, ''Failed to update VPN Server configuration. ''
                                  @ ''Response status code: '' @ str_int status_code @ '', ''
                                  @ ''VPN Server UUID: '' @ vpn_id)]))))"

subsection \<open>Template cascade: \<^verbatim>\<open>change_devices_templates\<close>\<close>

text \<open>The three collaborators with their keyword arguments, in the order the file writes
  them; the last argument of \<open>Manage_backend_changed\<close> is what is left of
  \<^verbatim>\<open>**kwargs\<close>.\<close>

datatype cascade_call =
    Manage_devices_group_templates pyval pyval pyval
  | Manage_group_templates pyval pyval pyval
  | Manage_backend_changed pyval pyval pyval "(string \<times> pyval) list"

text \<open>Lines 177-200. \<open>collaborator\<close> is how the call ends; the result holds the calls
  made.\<close>

definition change_devices_templates ::
  "model_names \<Rightarrow> (cascade_call \<Rightarrow> outcome) \<Rightarrow> pyval \<Rightarrow> string \<Rightarrow> (string \<times> pyval) list
     \<Rightarrow> outcome \<times> cascade_call list" where
  "change_devices_templates names collaborator instance_id model_name kwargs =
     (if model_name = device_model_name names
      then (let call = Manage_devices_group_templates instance_id
                         (dict_get kwargs ''old_group_id'') (dict_get kwargs ''group_id'')
            in (collaborator call, [call]))
      else if model_name = devicegroup_model_name names
      then (let call = Manage_group_templates instance_id
                         (dict_get kwargs ''old_templates'') (dict_get kwargs ''templates'')
            in (collaborator call, [call]))
      else if model_name = config_model_name names
      then (case dict_pop kwargs ''old_backend'' of
              Inl e \<Rightarrow> (Raises e, [])
            | Inr (old_backend, kwargs1) \<Rightarrow>
                (case dict_pop kwargs1 ''backend'' of
                   Inl e \<Rightarrow> (Raises e, [])
                 | Inr (backend, kwargs2) \<Rightarrow>
                     (let call = Manage_backend_changed instance_id old_backend backend kwargs2
                      in (collaborator call, [call]))))
      else (Returns, []))"

section \<open>Sample inputs\<close>

text \<open>Concrete inputs on which the theorems below are instantiated.\<close>

definition sample_names :: model_names where
  "sample_names = \<lparr>device_model_name = ''device'', devicegroup_model_name = ''devicegroup'',
     config_model_name = ''config'', cert_model_name = ''cert''\<rparr>"

definition always_returns :: "'c \<Rightarrow> outcome" where
  "always_returns call = Returns"

definition sample_objects_get :: "string \<Rightarrow> exn + string" where
  "sample_objects_get pk =
     (if pk = ''7f9c24e8-3b1a-4c5d-9e2f-1a2b3c4d5e6f'' then Inr ''office''
      else if length pk = 36 then Inl DoesNotExist
      else Inl (ValidationError ''not a valid UUID''))"

definition sample_str_template :: "string \<Rightarrow> string" where
  "sample_str_template template = template"

definition sample_str_exn :: "exn \<Rightarrow> string" where
  "sample_str_exn e = ''Template matching query does not exist.''"

definition sample_vpn :: vpn where
  "sample_vpn = \<lparr>dh = None\<rparr>"

definition sample_vpns :: "string \<rightharpoonup> vpn" where
  "sample_vpns = Map.empty(''v1'' \<mapsto> sample_vpn)"

definition sample_str_vpn :: "vpn \<Rightarrow> string" where
  "sample_str_vpn v = ''vpn''"

definition dhparam_times_out :: "nat \<Rightarrow> exn + string" where
  "dhparam_times_out bits = Inl SoftTimeLimitExceeded"

definition dhparam_succeeds :: "nat \<Rightarrow> exn + string" where
  "dhparam_succeeds bits = Inr ''-----BEGIN DH PARAMETERS-----''"

definition full_clean_rejects :: "vpn \<Rightarrow> exn + vpn" where
  "full_clean_rejects v = Inl (ValidationError ''dh'')"

definition responds_503 :: "http_call \<Rightarrow> exn + int" where
  "responds_503 request = Inr 503"

section \<open>Discovery reconciliation\<close>

subsection \<open>The loop and the lookup\<close>

lemma reconcile_antennas_append:
  "reconcile_antennas repr clock (xs @ ys) s =
     (case reconcile_antennas repr clock xs s of
        (Raises e, s') \<Rightarrow> (Raises e, s')
      | (Returns, s') \<Rightarrow> reconcile_antennas repr clock ys s')"
  by (induction xs arbitrary: s) (auto split: prod.splits outcome.splits)

lemma rows_with_ip_single:
  assumes "rows_with_ip a ds = [(pk, d)]"
  shows "pk < length ds \<and> ds ! pk = d \<and> ip d = a"
proof -
  have "(pk, d) \<in> set (rows_with_ip a ds)" using assms by simp
  then show ?thesis by (auto simp: rows_with_ip_def in_set_enumerate_eq)
qed

lemma enumerate_list_update:
  "enumerate n (ds[pk := x]) = map (\<lambda>(k, d). if k = n + pk then (k, x) else (k, d)) (enumerate n ds)"
  by (rule nth_equalityI) (auto simp: nth_enumerate_eq nth_list_update)

lemma rows_with_ip_update:
  assumes "pk < length ds" and "ip x = ip (ds ! pk)"
  shows "rows_with_ip a (ds[pk := x]) =
           map (\<lambda>(k, d). if k = pk then (k, x) else (k, d)) (rows_with_ip a ds)"
proof -
  have "filter (\<lambda>(k, d). ip d = a) (map (\<lambda>(k, d). if k = pk then (k, x) else (k, d)) (enumerate 0 ds))
        = map (\<lambda>(k, d). if k = pk then (k, x) else (k, d)) (filter (\<lambda>(k, d). ip d = a) (enumerate 0 ds))"
    unfolding filter_map
    by (rule arg_cong[where f="map _"], rule filter_cong)
       (auto simp: in_set_enumerate_eq assms split: if_splits)
  then show ?thesis
    by (simp add: rows_with_ip_def enumerate_list_update)
qed

subsection \<open>TXT records\<close>

text \<open>The loop over the TXT records ends normally exactly when every TXT field holds an
  \<open>=\<close>; a field without one raises IndexError at \<^verbatim>\<open>t[1]\<close>.\<close>

lemma parse_txt_ok:
  "\<forall>txt \<in> set txts. CHR ''='' \<in> set txt \<Longrightarrow> \<exists>records. parse_txt txts acc = Inr records"
  by (induction txts arbitrary: acc) (simp_all add: str_split_maxsplit1_def getitem_def)

lemma parse_txt_IndexError:
  "\<exists>txt \<in> set txts. CHR ''='' \<notin> set txt \<Longrightarrow> parse_txt txts acc = Inl IndexError"
  by (induction txts arbitrary: acc) (auto simp: str_split_maxsplit1_def getitem_def)

text \<open>A valid announcement has an address field: line 56 never raises IndexError.\<close>

lemma valid_has_address:
  assumes "parse_txt (drop 9 antenna) [] = Inr records" and "map_of records k \<noteq> None"
  shows "getitem antenna 7 = Inr (antenna ! 7)"
proof -
  have "drop 9 antenna \<noteq> []" using assms by auto
  then show ?thesis by (simp add: getitem_def)
qed

subsection \<open>Valid announcements\<close>

lemma refresh_or_add_known:
  assumes "getitem antenna 7 = Inr a" and "rows_with_ip a (devices s) = [(pk, known)]"
  shows "refresh_or_add clock antenna records s =
           (Returns, s\<lparr>devices := (devices s)[pk := known\<lparr>last_seen := clock (now_calls s)\<rparr>],
                        now_calls := Suc (now_calls s)\<rparr>)"
  using assms by (simp add: refresh_or_add_def Let_def)

lemma refresh_or_add_unknown:
  assumes "getitem antenna 7 = Inr a" and "rows_with_ip a (devices s) = []"
  shows "refresh_or_add clock antenna records s =
           (Raises DoesNotExist, s\<lparr>now_calls := Suc (now_calls s)\<rparr>)"
  using assms by (simp add: refresh_or_add_def Let_def)

lemma reconcile_antenna_valid:
  assumes "startswith line ''=''"
    and "parse_txt (drop 9 (str_split CHR '';'' line)) [] = Inr records"
    and "map_of records ''mac'' \<noteq> None" and "map_of records ''os_version'' \<noteq> None"
    and "map_of records ''version'' \<noteq> None"
  shows "reconcile_antenna repr clock line s = refresh_or_add clock (str_split CHR '';'' line) records s"
    and "getitem (str_split CHR '';'' line) 7 = Inr (str_split CHR '';'' line ! 7)"
  using assms valid_has_address[OF assms(2,3)] by (auto simp: reconcile_antenna_def Let_def)

text \<open>A valid announcement of an address that has no row ends the job with
  \<^verbatim>\<open>DoesNotExist\<close>: the branch of lines 62-67 is never reached.\<close>

lemma unknown_address_aborts:
  assumes "startswith line ''=''"
    and "parse_txt (drop 9 (str_split CHR '';'' line)) [] = Inr records"
    and "map_of records ''mac'' \<noteq> None" and "map_of records ''os_version'' \<noteq> None"
    and "map_of records ''version'' \<noteq> None"
    and "rows_with_ip (str_split CHR '';'' line ! 7) (devices s) = []"
  shows "reconcile_antennas repr clock (line # rest) s =
           (Raises DoesNotExist, s\<lparr>now_calls := Suc (now_calls s)\<rparr>)"
  using reconcile_antenna_valid[OF assms(1-5)] refresh_or_add_unknown[OF _ assms(6)] by simp

text \<open>No run ever adds a row to the table.\<close>

lemma refresh_or_add_never_adds:
  "length (devices (snd (refresh_or_add clock antenna records s))) = length (devices s)"
  by (cases "rows_with_ip (antenna ! 7) (devices s)" rule: queryset_get.cases)
     (auto simp: refresh_or_add_def Let_def getitem_def)

lemma reconcile_antenna_never_adds:
  "length (devices (snd (reconcile_antenna repr clock line s))) = length (devices s)"
  by (simp add: reconcile_antenna_def Let_def refresh_or_add_never_adds split: sum.splits)

lemma reconcile_antennas_never_adds:
  "length (devices (snd (reconcile_antennas repr clock lines s))) = length (devices s)"
proof (induction lines arbitrary: s)
  case Nil
  show ?case by simp
next
  case (Cons line lines)
  obtain r s' where step: "reconcile_antenna repr clock line s = (r, s')"
    by (cases "reconcile_antenna repr clock line s")
  have "length (devices s') = length (devices s)"
    using reconcile_antenna_never_adds[of repr clock line s] step by simp
  with Cons.IH[of s'] step show ?case
    by (cases r) simp_all
qed

text \<open>
  Claim C1 says that a valid resolved line whose address has no row makes the run create
  one new AdoptableDevice. The code does not: on the line below, with an empty table,
  \<^verbatim>\<open>objects.get\<close> raises \<^verbatim>\<open>DoesNotExist\<close>, which nothing catches; the job ends with
  that exception and the table is still empty.
\<close>

theorem unknown_address_raises_DoesNotExist:
  "update_adoptable_antenna_list repr clock
     ''=;eth0;IPv4;host;local;;;10.0.0.5;1234;mac=AA:BB:CC:DD:EE:FF;os_version=1.2;version=3.0''
     \<lparr>devices = [], log_records = [], now_calls = 0\<rparr> =
   (Raises DoesNotExist, \<lparr>devices = [], log_records = [], now_calls = 1\<rparr>)"
  by (simp add: update_adoptable_antenna_list_def reconcile_antenna_def startswith_def
      str_split_maxsplit1_def getitem_def refresh_or_add_def rows_with_ip_def Let_def)

subsection \<open>Invalid announcements\<close>

text \<open>When every TXT field holds an \<open>=\<close> and one of the three keys is missing, the line
  is skipped with a warning and the loop goes on.\<close>

lemma missing_key_warns:
  assumes "startswith line ''=''"
    and "parse_txt (drop 9 (str_split CHR '';'' line)) [] = Inr records"
    and "map_of records ''mac'' = None \<or> map_of records ''os_version'' = None
           \<or> map_of records ''version'' = None"
  shows "reconcile_antennas repr clock (line # rest) s =
           reconcile_antennas repr clock rest
             (s\<lparr>log_records := log_records s @ [invalid_announcement repr records]\<rparr>)"
  using assms by (auto simp: reconcile_antenna_def Let_def)

text \<open>
  Claim C2 says that a resolved line whose TXT records miss one of mac, os_version and
  version is skipped with a warning and without an exception. The code does not do so for
  the resolved announcement of a service without TXT records, whose last field is empty:
  \<^verbatim>\<open>''.split('=', maxsplit=1)\<close> is \<^verbatim>\<open>['']\<close>, and \<^verbatim>\<open>t[1]\<close> on line 45 raises
  IndexError. The job ends with that exception, in the state it was in, and no warning is
  logged.
\<close>

theorem announcement_without_txt_raises_IndexError:
  "update_adoptable_antenna_list repr clock
     ''=;eth0;IPv4;host;_openwisp-unmanaged._tcp;local;host.local;10.0.0.5;1234;'' s =
   (Raises IndexError, s)"
  by (simp add: update_adoptable_antenna_list_def reconcile_antenna_def startswith_def
      str_split_maxsplit1_def getitem_def Let_def)

subsection \<open>Known addresses\<close>

text \<open>
  What the loop does when it reaches a valid resolved line whose address has exactly one
  row: \<open>s\<close> is the state in which the line is reached, \<open>known\<close> the row of the address
  and \<open>pk\<close> its primary key, and \<open>clock (now_calls s)\<close> is what \<^verbatim>\<open>datetime.now()\<close>
  returns on line 54. The row gets the new \<open>last_seen\<close> and keeps its other fields, the
  table keeps its length, and the address still has this one row.
\<close>

lemma reached_known_address_refreshes_last_seen:
  assumes "str_split (CHR 0x0A) mdns_output = before @ line # rest"
    and "reconcile_antennas repr clock before s0 = (Returns, s)"
    and "startswith line ''=''"
    and "parse_txt (drop 9 (str_split CHR '';'' line)) [] = Inr records"
    and "map_of records ''mac'' \<noteq> None" and "map_of records ''os_version'' \<noteq> None"
    and "map_of records ''version'' \<noteq> None"
    and "rows_with_ip (str_split CHR '';'' line ! 7) (devices s) = [(pk, known)]"
  shows "update_adoptable_antenna_list repr clock mdns_output s0 =
           reconcile_antennas repr clock rest
             (s\<lparr>devices := (devices s)[pk := known\<lparr>last_seen := clock (now_calls s)\<rparr>],
                now_calls := Suc (now_calls s)\<rparr>)
         \<and> pk < length (devices s) \<and> devices s ! pk = known
         \<and> length ((devices s)[pk := known\<lparr>last_seen := clock (now_calls s)\<rparr>]) = length (devices s)
         \<and> rows_with_ip (str_split CHR '';'' line ! 7)
              ((devices s)[pk := known\<lparr>last_seen := clock (now_calls s)\<rparr>]) =
             [(pk, known\<lparr>last_seen := clock (now_calls s)\<rparr>)]"
proof -
  let ?s' = "s\<lparr>devices := (devices s)[pk := known\<lparr>last_seen := clock (now_calls s)\<rparr>],
               now_calls := Suc (now_calls s)\<rparr>"
  note row = rows_with_ip_single[OF assms(8)]
  have step: "reconcile_antenna repr clock line s = (Returns, ?s')"
    using reconcile_antenna_valid[OF assms(3-7)] refresh_or_add_known[OF _ assms(8)] by simp
  have run: "update_adoptable_antenna_list repr clock mdns_output s0 =
               reconcile_antennas repr clock rest ?s'"
    by (simp add: update_adoptable_antenna_list_def assms(1,2) reconcile_antennas_append step)
  have still: "rows_with_ip (str_split CHR '';'' line ! 7)
                 ((devices s)[pk := known\<lparr>last_seen := clock (now_calls s)\<rparr>]) =
               [(pk, known\<lparr>last_seen := clock (now_calls s)\<rparr>)]"
    using row by (simp add: rows_with_ip_update assms(8))
  show ?thesis
    using run still row by simp
qed

text \<open>
  Claim C3 says that every valid resolved line whose address has a row makes the run set
  that row's \<open>last_seen\<close> to the current time. The code does not when the run ends before
  it reaches the line. Below, the text has two lines: the resolved announcement of a
  service without TXT records, then a valid resolved line for 10.0.0.5, which has a row
  with \<open>last_seen = 4\<close>. The first line raises IndexError on line 45, the job ends with
  that exception, and the row of 10.0.0.5 still has \<open>last_seen = 4\<close>.
\<close>

theorem known_address_after_aborting_line_is_not_refreshed:
  "update_adoptable_antenna_list repr clock
     (''=;eth0;IPv4;printer;_openwisp-unmanaged._tcp;local;printer.local;10.0.0.9;1234;''
      @ [CHR 0x0A]
      @ ''=;eth0;IPv4;host;local;;;10.0.0.5;1234;mac=AA:BB;os_version=1.2;version=3.0'')
     \<lparr>devices = [\<lparr>mac_address = ''AA:BB'', adoption_key = ''key'', os_version = ''1.0'',
                   ip = ''10.0.0.5'', first_seen = 3, last_seen = 4\<rparr>],
      log_records = [], now_calls = 0\<rparr> =
   (Raises IndexError,
    \<lparr>devices = [\<lparr>mac_address = ''AA:BB'', adoption_key = ''key'', os_version = ''1.0'',
                  ip = ''10.0.0.5'', first_seen = 3, last_seen = 4\<rparr>],
     log_records = [], now_calls = 0\<rparr>)"
  by (simp add: update_adoptable_antenna_list_def reconcile_antenna_def startswith_def
      str_split_maxsplit1_def getitem_def Let_def)

section \<open>Template status propagation\<close>

text \<open>
  Claim C4 says that the job logs a warning and returns for every template identifier
  that names no template. It does not when the lookup raises something other than
  \<^verbatim>\<open>ObjectDoesNotExist\<close>: with a lookup that rejects the identifier \<^verbatim>\<open>t2\<close> with a
  ValidationError, as a UUID primary key does, the exception leaves the job and nothing
  is logged.
\<close>

theorem rejected_template_identifier_raises:
  "update_template_related_config_status sample_str_template sample_str_exn always_returns
     sample_objects_get ''t2'' =
   (Raises (ValidationError ''not a valid UUID''), [])"
  by (simp add: update_template_related_config_status_def sample_objects_get_def)

text \<open>
  Claim C4, amended: for every template identifier on which the lookup raises
  \<^verbatim>\<open>DoesNotExist\<close> (no template has that primary key) the job logs a warning and
  returns; it raises nothing and does not call the operation that recomputes the status
  of the related configurations. For an identifier that names a template the operation
  is called exactly once, however it ends.
\<close>

theorem missing_template_is_logged_and_skipped:
  "(objects_get template_pk = Inl DoesNotExist \<longrightarrow>
      update_template_related_config_status str_template str_exn update_related objects_get template_pk =
        (Returns, [Logged (WARNING, ''update_template_related_config_status('' @ [CHR 0x22] @ template_pk
                                     @ [CHR 0x22] @ '') failed: '' @ str_exn DoesNotExist)]))
   \<and> (\<forall>template. objects_get template_pk = Inr template \<longrightarrow>
        calls (snd (update_template_related_config_status str_template str_exn update_related
                      objects_get template_pk)) = [Update_related_config_status template])"
  by (auto simp: update_template_related_config_status_def split: outcome.splits)

theorem missing_template_is_logged_and_skipped_witness:
  "sample_objects_get ''00000000-0000-0000-0000-000000000000'' = Inl DoesNotExist
   \<and> update_template_related_config_status sample_str_template sample_str_exn always_returns
      sample_objects_get ''00000000-0000-0000-0000-000000000000'' =
     (Returns, [Logged (WARNING, ''update_template_related_config_status('' @ [CHR 0x22]
                                   @ ''00000000-0000-0000-0000-000000000000''
                                   @ [CHR 0x22] @ '') failed: Template matching query does not exist.'')])
   \<and> sample_objects_get ''7f9c24e8-3b1a-4c5d-9e2f-1a2b3c4d5e6f'' = Inr ''office''
   \<and> calls (snd (update_template_related_config_status sample_str_template sample_str_exn
                    always_returns sample_objects_get ''7f9c24e8-3b1a-4c5d-9e2f-1a2b3c4d5e6f'')) =
       [Update_related_config_status ''office'']"
proof -
  have absent: "sample_objects_get ''00000000-0000-0000-0000-000000000000'' = Inl DoesNotExist"
    and present: "sample_objects_get ''7f9c24e8-3b1a-4c5d-9e2f-1a2b3c4d5e6f'' = Inr ''office''"
    by (simp_all add: sample_objects_get_def)
  from missing_template_is_logged_and_skipped[of sample_objects_get
      "''00000000-0000-0000-0000-000000000000''" sample_str_template sample_str_exn always_returns]
    absent
  have a: "update_template_related_config_status sample_str_template sample_str_exn always_returns
      sample_objects_get ''00000000-0000-0000-0000-000000000000'' =
     (Returns, [Logged (WARNING, ''update_template_related_config_status('' @ [CHR 0x22]
                                   @ ''00000000-0000-0000-0000-000000000000''
                                   @ [CHR 0x22] @ '') failed: '' @ sample_str_exn DoesNotExist)])"
    by blast
  from missing_template_is_logged_and_skipped[of sample_objects_get
      "''7f9c24e8-3b1a-4c5d-9e2f-1a2b3c4d5e6f''" sample_str_template sample_str_exn always_returns]
    present
  have b: "calls (snd (update_template_related_config_status sample_str_template sample_str_exn
                    always_returns sample_objects_get ''7f9c24e8-3b1a-4c5d-9e2f-1a2b3c4d5e6f'')) =
       [Update_related_config_status ''office'']"
    by blast
  from a b absent present show ?thesis by (simp add: sample_str_exn_def)
qed

section \<open>DH parameters of a VPN server\<close>

text \<open>
  Claim C5: for an identifier that names a Vpn, when the generation of the DH parameters
  raises the soft time limit, the job logs the timeout and returns; it calls neither the
  validation nor the save, the table of VPN servers is the one before the job, and a
  \<open>dh\<close> that was unset is still unset. Validation and save are called only when the
  generation has returned parameters.
\<close>

theorem soft_timeout_leaves_dh_unset:
  assumes "vpns vpn_pk = Some vpn"
  shows "(dhparam 2048 = Inl SoftTimeLimitExceeded \<longrightarrow>
            create_vpn_dh str_vpn dhparam full_clean vpns vpn_pk =
              (Returns, vpns,
               [Called (Dhparam 2048),
                Logged (ERROR, ''soft time limit hit while generating DH parameters for VPN Server ''
                               @ str_vpn vpn @ '' (ID: '' @ vpn_pk @ '')'')])
            \<and> (dh vpn = None \<longrightarrow>
                  map_option dh (fst (snd (create_vpn_dh str_vpn dhparam full_clean vpns vpn_pk)) vpn_pk)
                    = Some None))
       \<and> (Full_clean \<in> set (calls (snd (snd (create_vpn_dh str_vpn dhparam full_clean vpns vpn_pk))))
            \<or> Save \<in> set (calls (snd (snd (create_vpn_dh str_vpn dhparam full_clean vpns vpn_pk))))
          \<longrightarrow> (\<exists>params. dhparam 2048 = Inr params))"
  using assms by (auto simp: create_vpn_dh_def rows_with_pk_def split: sum.splits if_splits)

theorem soft_timeout_leaves_dh_unset_witness:
  "sample_vpns ''v1'' = Some sample_vpn
   \<and> dhparam_times_out 2048 = Inl SoftTimeLimitExceeded
   \<and> create_vpn_dh sample_str_vpn dhparam_times_out full_clean_rejects sample_vpns ''v1'' =
       (Returns, sample_vpns,
        [Called (Dhparam 2048),
         Logged (ERROR, ''soft time limit hit while generating DH parameters for VPN Server vpn (ID: v1)'')])
   \<and> map_option dh (sample_vpns ''v1'') = Some None"
proof -
  have h: "sample_vpns ''v1'' = Some sample_vpn"
    by (simp add: sample_vpns_def)
  have t: "dhparam_times_out 2048 = Inl SoftTimeLimitExceeded"
    by (simp add: dhparam_times_out_def)
  have u: "dh sample_vpn = None"
    by (simp add: sample_vpn_def)
  from soft_timeout_leaves_dh_unset[where vpns = sample_vpns and vpn_pk = "''v1''" and vpn = sample_vpn
      and dhparam = dhparam_times_out and str_vpn = sample_str_vpn and full_clean = full_clean_rejects, OF h]
    t u h
  show ?thesis
    by (simp add: sample_str_vpn_def)
qed

text \<open>
  Claim C6: when the generation succeeds and the validation of the Vpn raises, the
  exception leaves the job, the save is not called and the table of VPN servers is the
  one before the job.
\<close>

theorem validation_failure_propagates:
  assumes "vpns vpn_pk = Some vpn"
    and "dhparam 2048 = Inr params"
    and "full_clean (vpn\<lparr>dh := Some params\<rparr>) = Inl e"
  shows "create_vpn_dh str_vpn dhparam full_clean vpns vpn_pk =
           (Raises e, vpns, [Called (Dhparam 2048), Called Full_clean])"
  using assms by (simp add: create_vpn_dh_def rows_with_pk_def)

theorem validation_failure_propagates_witness:
  "create_vpn_dh sample_str_vpn dhparam_succeeds full_clean_rejects sample_vpns ''v1'' =
     (Raises (ValidationError ''dh''), sample_vpns, [Called (Dhparam 2048), Called Full_clean])"
proof -
  have h: "sample_vpns ''v1'' = Some sample_vpn"
    by (simp add: sample_vpns_def)
  have g: "dhparam_succeeds 2048 = Inr ''-----BEGIN DH PARAMETERS-----''"
    by (simp add: dhparam_succeeds_def)
  have v: "full_clean_rejects (sample_vpn\<lparr>dh := Some ''-----BEGIN DH PARAMETERS-----''\<rparr>) =
             Inl (ValidationError ''dh'')"
    by (simp add: full_clean_rejects_def)
  show ?thesis
    by (rule validation_failure_propagates[where vpns = sample_vpns and vpn_pk = "''v1''" and vpn = sample_vpn
      and dhparam = dhparam_succeeds and full_clean = full_clean_rejects, OF h g v])
qed

section \<open>Cache invalidation on change\<close>

text \<open>
  Claim C9: when the model name is none of the names of Device, DeviceGroup and Cert, the
  job calls no invalidation and returns normally.
\<close>

theorem unrecognised_model_name_invalidates_nothing:
  assumes "model_name \<noteq> device_model_name names"
    and "model_name \<noteq> devicegroup_model_name names"
    and "model_name \<noteq> cert_model_name names"
  shows "invalidate_devicegroup_cache_change names collaborator instance_id model_name = (Returns, [])"
  using assms by (simp add: invalidate_devicegroup_cache_change_def)

theorem unrecognised_model_name_invalidates_nothing_witness:
  "invalidate_devicegroup_cache_change sample_names always_returns (PyStr ''42'') ''template'' = (Returns, [])"
proof -
  have h: "''template'' \<noteq> device_model_name sample_names"
    "''template'' \<noteq> devicegroup_model_name sample_names"
    "''template'' \<noteq> cert_model_name sample_names"
    by (simp_all add: sample_names_def)
  show ?thesis
    by (rule unrecognised_model_name_invalidates_nothing[OF h])
qed

section \<open>Webhook of a VPN server\<close>

lemma str_int_503: "str_int 503 = ''503''"
  by (simp add: str_int_def str_nat.simps)

text \<open>
  Claim C7: for every response the request receives, the job makes the one request,
  logs and returns without an exception. With status 200 it logs the success; with any
  other status it logs an error whose message contains the status code and the
  identifier of the VPN server.
\<close>

theorem webhook_logs_and_returns:
  assumes "requests_post (Requests_post endpoint [(''key'', auth_token)] (\<not> debug)) = Inr status_code"
  shows "(status_code = 200 \<longrightarrow>
            trigger_vpn_server_endpoint debug requests_post endpoint auth_token vpn_id =
              (Returns,
               [Called (Requests_post endpoint [(''key'', auth_token)] (\<not> debug)),
                Logged (INFO, ''Triggered update webhook of VPN Server UUID: '' @ vpn_id)]))
       \<and> (status_code \<noteq> 200 \<longrightarrow>
            (\<exists>message.
               trigger_vpn_server_endpoint debug requests_post endpoint auth_token vpn_id =
                 (Returns,
                  [Called (Requests_post endpoint [(''key'', auth_token)] (\<not> debug)),
                   Logged (ERROR, message)])
               \<and> sublist (str_int status_code) message \<and> sublist vpn_id message))"
proof (intro conjI impI)
  assume "status_code = 200"
  then show "trigger_vpn_server_endpoint debug requests_post endpoint auth_token vpn_id =
              (Returns,
               [Called (Requests_post endpoint [(''key'', auth_token)] (\<not> debug)),
                Logged (INFO, ''Triggered update webhook of VPN Server UUID: '' @ vpn_id)])"
    using assms by (cases debug) (simp_all add: trigger_vpn_server_endpoint_def Let_def)
next
  assume other: "status_code \<noteq> 200"
  let ?before = "''Failed to update VPN Server configuration. '' @ ''Response status code: ''"
  let ?message = "?before @ str_int status_code @ '', '' @ ''VPN Server UUID: '' @ vpn_id"
  have run: "trigger_vpn_server_endpoint debug requests_post endpoint auth_token vpn_id =
               (Returns,
                [Called (Requests_post endpoint [(''key'', auth_token)] (\<not> debug)),
                 Logged (ERROR, ?message)])"
    using assms other by (cases debug) (simp_all add: trigger_vpn_server_endpoint_def Let_def)
  have code: "sublist (str_int status_code) ?message"
    by (rule sublist_appendI)
  have "?message = (?before @ str_int status_code @ '', '' @ ''VPN Server UUID: '') @ vpn_id @ []"
    by simp
  then have ident: "sublist vpn_id ?message"
    by (simp only: sublist_appendI)
  from run code ident
  show "\<exists>message.
          trigger_vpn_server_endpoint debug requests_post endpoint auth_token vpn_id =
            (Returns,
             [Called (Requests_post endpoint [(''key'', auth_token)] (\<not> debug)),
              Logged (ERROR, message)])
          \<and> sublist (str_int status_code) message \<and> sublist vpn_id message"
    by blast
qed

theorem webhook_logs_and_returns_witness:
  "\<exists>message.
     trigger_vpn_server_endpoint False responds_503 ''https://vpn.example/hook'' ''token'' ''v1'' =
       (Returns,
        [Called (Requests_post ''https://vpn.example/hook'' [(''key'', ''token'')] True),
         Logged (ERROR, message)])
     \<and> sublist ''503'' message \<and> sublist ''v1'' message"
proof -
  have h: "responds_503 (Requests_post ''https://vpn.example/hook'' [(''key'', ''token'')] (\<not> False)) = Inr 503"
    by (simp add: responds_503_def)
  have n: "(503::int) \<noteq> 200"
    by simp
  from webhook_logs_and_returns[where requests_post = responds_503 and debug = False
      and endpoint = "''https://vpn.example/hook''" and auth_token = "''token''"
      and status_code = 503 and vpn_id = "''v1''", OF h] n
  show ?thesis
    by (simp add: str_int_503)
qed

section \<open>Template cascade\<close>

text \<open>
  Claim C8 says that the Config kind calls \<^verbatim>\<open>manage_backend_changed\<close> in every
  invocation. It does not when a backend is missing from the keyword arguments: with the
  Config kind and no keyword argument the job raises KeyError and calls no collaborator.
\<close>

theorem config_kind_without_backends_calls_nothing:
  "change_devices_templates sample_names always_returns (PyStr ''c1'') ''config'' [] =
     (Raises (KeyError ''old_backend''), [])"
  by (simp add: change_devices_templates_def sample_names_def dict_pop_def)

text \<open>
  Claim C8, amended: every invocation calls at most one collaborator, chosen by the model
  name alone. The Device kind calls \<^verbatim>\<open>manage_devices_group_templates\<close>, the DeviceGroup
  kind calls \<^verbatim>\<open>manage_group_templates\<close>, the Config kind calls
  \<^verbatim>\<open>manage_backend_changed\<close> when both \<^verbatim>\<open>old_backend\<close> and \<^verbatim>\<open>backend\<close> are among the
  keyword arguments, and a model name that is none of the three calls no collaborator and
  returns normally. A kind is the first of the three names the model name is equal to.
\<close>

theorem cascade_dispatch:
  "length (snd (change_devices_templates names collaborator instance_id model_name kwargs)) \<le> 1
   \<and> (model_name = device_model_name names \<longrightarrow>
        snd (change_devices_templates names collaborator instance_id model_name kwargs) =
          [Manage_devices_group_templates instance_id
             (dict_get kwargs ''old_group_id'') (dict_get kwargs ''group_id'')])
   \<and> (model_name \<noteq> device_model_name names \<and> model_name = devicegroup_model_name names \<longrightarrow>
        snd (change_devices_templates names collaborator instance_id model_name kwargs) =
          [Manage_group_templates instance_id
             (dict_get kwargs ''old_templates'') (dict_get kwargs ''templates'')])
   \<and> (model_name \<noteq> device_model_name names \<and> model_name \<noteq> devicegroup_model_name names
        \<and> model_name = config_model_name names \<longrightarrow>
        (\<forall>old_backend backend.
            map_of kwargs ''old_backend'' = Some old_backend \<and> map_of kwargs ''backend'' = Some backend \<longrightarrow>
            snd (change_devices_templates names collaborator instance_id model_name kwargs) =
              [Manage_backend_changed instance_id old_backend backend
                 (AList.delete ''backend'' (AList.delete ''old_backend'' kwargs))]))
   \<and> (model_name \<noteq> device_model_name names \<and> model_name \<noteq> devicegroup_model_name names
        \<and> model_name \<noteq> config_model_name names \<longrightarrow>
        change_devices_templates names collaborator instance_id model_name kwargs = (Returns, []))"
  by (auto simp: change_devices_templates_def Let_def dict_pop_def delete_conv
           split: sum.splits option.splits)

theorem cascade_dispatch_witness:
  "length (snd (change_devices_templates sample_names always_returns (PyStr ''c1'') ''config''
                  [(''backend'', PyStr ''b''), (''reason'', PyInt 1), (''old_backend'', PyStr ''a'')])) \<le> 1
   \<and> snd (change_devices_templates sample_names always_returns (PyStr ''d1'') ''device''
             [(''group_id'', PyStr ''g2'')]) =
       [Manage_devices_group_templates (PyStr ''d1'') PyNone (PyStr ''g2'')]
   \<and> snd (change_devices_templates sample_names always_returns (PyStr ''g1'') ''devicegroup''
             [(''templates'', PyList [PyStr ''t1''])]) =
       [Manage_group_templates (PyStr ''g1'') PyNone (PyList [PyStr ''t1''])]
   \<and> snd (change_devices_templates sample_names always_returns (PyStr ''c1'') ''config''
             [(''backend'', PyStr ''b''), (''reason'', PyInt 1), (''old_backend'', PyStr ''a'')]) =
       [Manage_backend_changed (PyStr ''c1'') (PyStr ''a'') (PyStr ''b'') [(''reason'', PyInt 1)]]
   \<and> change_devices_templates sample_names always_returns (PyStr ''x'') ''template'' [] = (Returns, [])"
proof -
  let ?kw = "[(''backend'', PyStr ''b''), (''reason'', PyInt 1), (''old_backend'', PyStr ''a'')]"
  have names: "device_model_name sample_names = ''device''"
    "devicegroup_model_name sample_names = ''devicegroup''"
    "config_model_name sample_names = ''config''"
    by (simp_all add: sample_names_def)
  have kw: "map_of ?kw ''old_backend'' = Some (PyStr ''a'')" "map_of ?kw ''backend'' = Some (PyStr ''b'')"
    by simp_all
  have rest: "AList.delete ''backend'' (AList.delete ''old_backend'' ?kw) = [(''reason'', PyInt 1)]"
    by (simp add: AList.delete_eq)
  from cascade_dispatch[of sample_names always_returns "PyStr ''c1''" "''config''" ?kw] names kw rest
  have config: "length (snd (change_devices_templates sample_names always_returns (PyStr ''c1'') ''config'' ?kw)) \<le> 1"
    "snd (change_devices_templates sample_names always_returns (PyStr ''c1'') ''config'' ?kw) =
       [Manage_backend_changed (PyStr ''c1'') (PyStr ''a'') (PyStr ''b'') [(''reason'', PyInt 1)]]"
    by simp_all
  from cascade_dispatch[of sample_names always_returns "PyStr ''d1''" "''device''" "[(''group_id'', PyStr ''g2'')]"]
    names
  have device: "snd (change_devices_templates sample_names always_returns (PyStr ''d1'') ''device''
             [(''group_id'', PyStr ''g2'')]) =
       [Manage_devices_group_templates (PyStr ''d1'') PyNone (PyStr ''g2'')]"
    by (simp add: dict_get_def)
  from cascade_dispatch[of sample_names always_returns "PyStr ''g1''" "''devicegroup''"
      "[(''templates'', PyList [PyStr ''t1''])]"] names
  have group: "snd (change_devices_templates sample_names always_returns (PyStr ''g1'') ''devicegroup''
             [(''templates'', PyList [PyStr ''t1''])]) =
       [Manage_group_templates (PyStr ''g1'') PyNone (PyList [PyStr ''t1''])]"
    by (simp add: dict_get_def)
  from cascade_dispatch[of sample_names always_returns "PyStr ''x''" "''template''" "[]"] names
  have other: "change_devices_templates sample_names always_returns (PyStr ''x'') ''template'' [] = (Returns, [])"
    by simp
  from config device group other show ?thesis
    by simp
qed

text \<open>
  Claim C10: with the Config kind the job raises KeyError and calls no collaborator when
  \<^verbatim>\<open>old_backend\<close> or \<^verbatim>\<open>backend\<close> is missing from the keyword arguments. With the Device
  and the DeviceGroup kind it does not raise for a missing keyword argument: it calls its
  collaborator with what \<^verbatim>\<open>kwargs.get\<close> returns, which is \<^verbatim>\<open>None\<close> for a missing key,
  and ends as the collaborator does.
\<close>

theorem cascade_missing_keyword_arguments:
  "(model_name \<noteq> device_model_name names \<and> model_name \<noteq> devicegroup_model_name names
      \<and> model_name = config_model_name names \<longrightarrow>
      (map_of kwargs ''old_backend'' = None \<longrightarrow>
         change_devices_templates names collaborator instance_id model_name kwargs =
           (Raises (KeyError ''old_backend''), []))
      \<and> (map_of kwargs ''old_backend'' \<noteq> None \<and> map_of kwargs ''backend'' = None \<longrightarrow>
           change_devices_templates names collaborator instance_id model_name kwargs =
             (Raises (KeyError ''backend''), [])))
   \<and> (model_name = device_model_name names \<longrightarrow>
        change_devices_templates names collaborator instance_id model_name kwargs =
          (collaborator (Manage_devices_group_templates instance_id
                           (dict_get kwargs ''old_group_id'') (dict_get kwargs ''group_id'')),
           [Manage_devices_group_templates instance_id
              (dict_get kwargs ''old_group_id'') (dict_get kwargs ''group_id'')]))
   \<and> (model_name \<noteq> device_model_name names \<and> model_name = devicegroup_model_name names \<longrightarrow>
        change_devices_templates names collaborator instance_id model_name kwargs =
          (collaborator (Manage_group_templates instance_id
                           (dict_get kwargs ''old_templates'') (dict_get kwargs ''templates'')),
           [Manage_group_templates instance_id
              (dict_get kwargs ''old_templates'') (dict_get kwargs ''templates'')]))
   \<and> (\<forall>k. map_of kwargs k = None \<longrightarrow> dict_get kwargs k = PyNone)"
  by (auto simp: change_devices_templates_def Let_def dict_pop_def dict_get_def delete_conv)

theorem cascade_missing_keyword_arguments_witness:
  "change_devices_templates sample_names always_returns (PyStr ''c1'') ''config''
       [(''backend'', PyStr ''b'')] = (Raises (KeyError ''old_backend''), [])
   \<and> change_devices_templates sample_names always_returns (PyStr ''c1'') ''config''
       [(''old_backend'', PyStr ''a'')] = (Raises (KeyError ''backend''), [])
   \<and> change_devices_templates sample_names always_returns (PyStr ''d1'') ''device'' [] =
       (Returns, [Manage_devices_group_templates (PyStr ''d1'') PyNone PyNone])
   \<and> change_devices_templates sample_names always_returns (PyStr ''g1'') ''devicegroup'' [] =
       (Returns, [Manage_group_templates (PyStr ''g1'') PyNone PyNone])"
proof -
  have names: "device_model_name sample_names = ''device''"
    "devicegroup_model_name sample_names = ''devicegroup''"
    "config_model_name sample_names = ''config''"
    by (simp_all add: sample_names_def)
  from cascade_missing_keyword_arguments[of "''config''" sample_names "[(''backend'', PyStr ''b'')]"
      always_returns "PyStr ''c1''"] names
  have a: "change_devices_templates sample_names always_returns (PyStr ''c1'') ''config''
       [(''backend'', PyStr ''b'')] = (Raises (KeyError ''old_backend''), [])"
    by simp
  from cascade_missing_keyword_arguments[of "''config''" sample_names "[(''old_backend'', PyStr ''a'')]"
      always_returns "PyStr ''c1''"] names
  have b: "change_devices_templates sample_names always_returns (PyStr ''c1'') ''config''
       [(''old_backend'', PyStr ''a'')] = (Raises (KeyError ''backend''), [])"
    by simp
  from cascade_missing_keyword_arguments[of "''device''" sample_names "[]" always_returns "PyStr ''d1''"]
    names
  have c: "change_devices_templates sample_names always_returns (PyStr ''d1'') ''device'' [] =
       (Returns, [Manage_devices_group_templates (PyStr ''d1'') PyNone PyNone])"
    by (simp add: always_returns_def)
  from cascade_missing_keyword_arguments[of "''devicegroup''" sample_names "[]" always_returns "PyStr ''g1''"]
    names
  have d: "change_devices_templates sample_names always_returns (PyStr ''g1'') ''devicegroup'' [] =
       (Returns, [Manage_group_templates (PyStr ''g1'') PyNone PyNone])"
    by (simp add: always_returns_def)
  from a b c d show ?thesis
    by simp
qed

end
